theory Spec2Isabelle
  imports Complex_Main
begin

section \<open>Numbers and runtime values\<close>

text \<open>
  A JavaScript number is modelled as a real or \<open>NaN\<close>. Finite doubles are idealised as
  reals: rounding, overflow to an infinity and the sign of zero are left out. \<open>NaN\<close> is
  kept because \<open>Number(args.value)\<close> produces it for a malformed operand, and it
  propagates through every arithmetic operator.
\<close>

datatype number = Fin real | NaN

fun num_add :: "number \<Rightarrow> number \<Rightarrow> number" where
  "num_add (Fin a) (Fin b) = Fin (a + b)"
| "num_add _ _ = NaN"

fun num_sub :: "number \<Rightarrow> number \<Rightarrow> number" where
  "num_sub (Fin a) (Fin b) = Fin (a - b)"
| "num_sub _ _ = NaN"

fun num_mul :: "number \<Rightarrow> number \<Rightarrow> number" where
  "num_mul (Fin a) (Fin b) = Fin (a * b)"
| "num_mul _ _ = NaN"

text \<open>
  A quotient by zero is an infinity or \<open>NaN\<close> in JavaScript. Both places that divide
  test the divisor first, so the value given here for a zero divisor is never read.
\<close>

fun num_div :: "number \<Rightarrow> number \<Rightarrow> number" where
  "num_div (Fin a) (Fin b) = (if b = 0 then NaN else Fin (a / b))"
| "num_div _ _ = NaN"

text \<open>\<open>value !== 0\<close>: false for zero only; \<open>NaN !== 0\<close> is true.\<close>

definition neq_zero :: "number \<Rightarrow> bool" where
  "neq_zero v = (v \<noteq> Fin 0)"

text \<open>The string enum \<open>OperationType\<close> of types.ts.\<close>

datatype OperationType = ADD | SUBTRACT | MULTIPLY | DIVIDE | RESET | UNKNOWN

text \<open>
  The hook computes the operation as \<open>OperationType[opKey] || OperationType.UNKNOWN\<close>.
  \<open>OperationType\<close> compiles to a plain object, so the lookup also finds the members the
  object inherits from \<open>Object.prototype\<close>. The value handed to the operation callback
  is therefore either a member of the enum or such an inherited value, named here by its
  property key.
\<close>

datatype op_value = Member OperationType | Inherited string

section \<open>The App: accumulator and history\<close>

record HistoryItem =
  id_h :: string
  value_h :: number
  operation_h :: op_value
  timestamp_h :: nat

record app_state =
  currentTotal :: number
  history :: "HistoryItem list"
  lastTranscript :: string

definition app_initial :: app_state where
  "app_initial = \<lparr>currentTotal = Fin 0, history = [], lastTranscript = ''''\<rparr>"

text \<open>The \<open>switch (op)\<close> of \<open>handleOperation\<close>: the new total.\<close>

fun switch_op :: "op_value \<Rightarrow> number \<Rightarrow> number \<Rightarrow> number" where
  "switch_op (Member ADD) prevTotal v = num_add prevTotal v"
| "switch_op (Member SUBTRACT) prevTotal v = num_sub prevTotal v"
| "switch_op (Member MULTIPLY) prevTotal v = num_mul prevTotal v"
| "switch_op (Member DIVIDE) prevTotal v = (if neq_zero v then num_div prevTotal v else prevTotal)"
| "switch_op (Member RESET) prevTotal v = Fin 0"
| "switch_op _ prevTotal v = prevTotal"

text \<open>
  \<open>handleOperation(op, value)\<close>. \<open>crypto.randomUUID()\<close> and \<open>Date.now()\<close> are
  inputs from the environment (\<open>uuid\<close>, \<open>now\<close>). The updater passed to
  \<open>setCurrentTotal\<close> runs once for each call of the callback.
\<close>

definition handleOperation :: "op_value \<Rightarrow> number \<Rightarrow> string \<Rightarrow> nat \<Rightarrow> app_state \<Rightarrow> app_state" where
  "handleOperation op v uuid now a =
     (let newTotal = switch_op op (currentTotal a) v in
      if op = Member RESET
      then a\<lparr>history := [], currentTotal := Fin 0\<rparr>
      else a\<lparr>history := history a @
                  [\<lparr>id_h = uuid, value_h = v, operation_h = op, timestamp_h = now\<rparr>],
             currentTotal := newTotal\<rparr>)"

definition handleTranscript :: "string \<Rightarrow> app_state \<Rightarrow> app_state" where
  "handleTranscript text a = a\<lparr>lastTranscript := text\<rparr>"

text \<open>One call of the operation callback, with what the environment supplies to it.\<close>

record op_call =
  op_c :: op_value
  value_c :: number
  uuid_c :: string
  now_c :: nat

definition apply_call :: "app_state \<Rightarrow> op_call \<Rightarrow> app_state" where
  "apply_call a c = handleOperation (op_c c) (value_c c) (uuid_c c) (now_c c) a"

definition apply_calls :: "op_call list \<Rightarrow> app_state \<Rightarrow> app_state" where
  "apply_calls cs a = foldl apply_call a cs"

section \<open>The Visualizer: running totals recomputed from the history\<close>

record point =
  name_p :: string
  total :: number

fun digit_char :: "nat \<Rightarrow> char" where
  "digit_char n = char_of (48 + n)"

text \<open>The decimal numeral the template literal \<open>`${idx + 1}`\<close> produces.\<close>

fun string_of_nat :: "nat \<Rightarrow> string" where
  "string_of_nat n =
     (if n < 10 then [digit_char n] else string_of_nat (n div 10) @ [digit_char (n mod 10)])"

text \<open>The if-chain in the body of \<open>history.forEach\<close>: the new \<open>runningTotal\<close>.\<close>

definition chart_step :: "number \<Rightarrow> HistoryItem \<Rightarrow> number" where
  "chart_step runningTotal h =
     (if operation_h h = Member RESET then Fin 0
      else if operation_h h = Member ADD then num_add runningTotal (value_h h)
      else if operation_h h = Member SUBTRACT then num_sub runningTotal (value_h h)
      else if operation_h h = Member MULTIPLY then num_mul runningTotal (value_h h)
      else if operation_h h = Member DIVIDE
        then (if neq_zero (value_h h) then num_div runningTotal (value_h h) else runningTotal)
      else runningTotal)"

text \<open>
  \<open>history.forEach((h, idx) => ...)\<close>, with the two variables the callback mutates:
  \<open>runningTotal\<close> and \<open>points\<close>.
\<close>

fun forEach_history :: "nat \<Rightarrow> HistoryItem list \<Rightarrow> number \<Rightarrow> point list \<Rightarrow> point list" where
  "forEach_history idx [] runningTotal points = points"
| "forEach_history idx (h # hs) runningTotal points =
     (let runningTotal' = chart_step runningTotal h in
      forEach_history (idx + 1) hs runningTotal'
        (points @ [\<lparr>name_p = string_of_nat (idx + 1), total = runningTotal'\<rparr>]))"

definition visualizer_data :: "HistoryItem list \<Rightarrow> point list" where
  "visualizer_data hist =
     forEach_history 0 hist (Fin 0) [\<lparr>name_p = ''Start'', total = Fin 0\<rparr>]"

section \<open>The session hook: data\<close>

text \<open>
  A value found in the arguments of a tool invocation. \<open>JObj s\<close> is an object or array
  whose conversion to a primitive gives the string \<open>s\<close>; a missing property is
  \<open>JUndefined\<close>.
\<close>

datatype jsval = JUndefined | JNull | JBool bool | JNum number | JStr string | JObj string

text \<open>
  \<open>Number(v)\<close>. The conversion of a string (\<open>StringToNumber\<close> of ECMAScript) is a
  parameter \<open>s2n\<close> of the model; everything proved holds for every such conversion.
\<close>

fun Number :: "(string \<Rightarrow> number) \<Rightarrow> jsval \<Rightarrow> number" where
  "Number s2n JUndefined = NaN"
| "Number s2n JNull = Fin 0"
| "Number s2n (JBool b) = Fin (if b then 1 else 0)"
| "Number s2n (JNum n) = n"
| "Number s2n (JStr s) = s2n s"
| "Number s2n (JObj s) = s2n s"

text \<open>A conversion that reads no string as a number, for closed examples without string operands.\<close>

definition no_numeric_string :: "string \<Rightarrow> number" where
  "no_numeric_string s = NaN"

text \<open>The own properties of the enum object, and the properties of \<open>Object.prototype\<close>.\<close>

fun own_member :: "string \<Rightarrow> OperationType option" where
  "own_member k =
     (if k = ''ADD'' then Some ADD
      else if k = ''SUBTRACT'' then Some SUBTRACT
      else if k = ''MULTIPLY'' then Some MULTIPLY
      else if k = ''DIVIDE'' then Some DIVIDE
      else if k = ''RESET'' then Some RESET
      else if k = ''UNKNOWN'' then Some UNKNOWN
      else None)"

definition Object_prototype_keys :: "string list" where
  "Object_prototype_keys =
     [''constructor'', ''hasOwnProperty'', ''isPrototypeOf'', ''propertyIsEnumerable'',
      ''toLocaleString'', ''toString'', ''valueOf'', ''__proto__'',
      ''__defineGetter__'', ''__defineSetter__'', ''__lookupGetter__'', ''__lookupSetter__'']"

text \<open>\<open>OperationType[k]\<close> for a string key: own property first, then the prototype; \<open>None\<close> is \<open>undefined\<close>.\<close>

definition get_property :: "string \<Rightarrow> op_value option" where
  "get_property k =
     (case own_member k of
        Some m \<Rightarrow> Some (Member m)
      | None \<Rightarrow> if k \<in> set Object_prototype_keys then Some (Inherited k) else None)"

text \<open>
  \<open>OperationType[opKey]\<close> for any value of \<open>args.operation\<close>. A key that is not a
  string is converted to one of \<open>undefined\<close>, \<open>null\<close>, \<open>true\<close>, \<open>false\<close> or a
  numeral, none of which names a property of the object or of its prototype.
\<close>

fun enum_lookup :: "jsval \<Rightarrow> op_value option" where
  "enum_lookup (JStr k) = get_property k"
| "enum_lookup (JObj k) = get_property k"
| "enum_lookup _ = None"

text \<open>
  \<open>OperationType[opKey] || OperationType.UNKNOWN\<close>: every value the lookup finds is
  truthy (a non-empty string, a function or an object).
\<close>

definition opType_of :: "jsval \<Rightarrow> op_value" where
  "opType_of opKey = (case enum_lookup opKey of Some v \<Rightarrow> v | None \<Rightarrow> Member UNKNOWN)"

record args =
  operation_arg :: jsval
  value_arg :: jsval

text \<open>A function call of a tool invocation; \<open>args_fc = None\<close> when \<open>fc.args\<close> is undefined.\<close>

record function_call =
  id_fc :: string
  name_fc :: string
  args_fc :: "args option"

record tool_call =
  functionCalls :: "function_call list option"

text \<open>\<open>inlineData_part\<close> is \<open>part.inlineData?.data\<close>, the base64 text if there is one.\<close>

record part =
  inlineData_part :: "string option"

record content =
  parts :: "part list option"

text \<open>\<open>inputTranscription\<close> holds the \<open>text\<close> of the transcription, when the message has one.\<close>

record server_content =
  inputTranscription :: "string option"
  modelTurn :: "content option"

record live_server_message =
  toolCall :: "tool_call option"
  serverContent :: "server_content option"

text \<open>An \<open>AudioBufferSourceNode\<close>: its identity and the duration of its buffer.\<close>

record source_node =
  node_id :: nat
  buffer_duration :: real

text \<open>What the hook sends to the remote service, in the order sent.\<close>

datatype outbound =
    SendRealtimeInput string
  | SendToolResponse string string string
  | SessionClose nat

text \<open>The calls of the two callbacks the hook is given, in the order made.\<close>

datatype callback = OnOperation op_value number | OnTranscriptUpdate string

text \<open>What the hook asks of the audio subsystem, in the order asked.\<close>

datatype audio_action = SourceStart source_node real | SourceStop source_node | ContextClose nat

datatype js_error = TypeError | DecodeError

text \<open>
  The state of \<open>useLiveMath\<close>: its three React state variables, its six refs, and the
  three logs of what it has done. \<open>sourcesRef\<close> is a JavaScript \<open>Set\<close>, kept in
  insertion order without duplicates.
\<close>

record hook_state =
  isConnected :: bool
  isConnecting :: bool
  error :: "string option"
  inputAudioContextRef :: "nat option"
  outputAudioContextRef :: "nat option"
  nextStartTimeRef :: real
  sourcesRef :: "source_node list"
  sessionPromiseRef :: "nat option"
  activeRef :: bool
  sent :: "outbound list"
  called :: "callback list"
  audio :: "audio_action list"

definition hook_initial :: hook_state where
  "hook_initial =
     \<lparr>isConnected = False, isConnecting = False, error = None,
      inputAudioContextRef = None, outputAudioContextRef = None,
      nextStartTimeRef = 0, sourcesRef = [], sessionPromiseRef = None,
      activeRef = False, sent = [], called = [], audio = []\<rparr>"

section \<open>The session hook: handlers\<close>

text \<open>
  Each handler is a function on the hook's state, and runs to its end before the next
  event is handled: JavaScript runs one task at a time, and the model takes what a handler
  awaits or defers to be settled within its task. So the sends deferred with
  \<open>sessionPromise.then\<close> are entered in the log \<open>sent\<close> in the order they are
  queued, and the result of \<open>decodeAudioData\<close> (a helper of utils/audioUtils), which
  \<open>onmessage\<close> awaits, is an input of the handler. \<open>connect()\<close>, which awaits the
  microphone, is one step as well.
\<close>

text \<open>
  What \<open>connect()\<close> meets in its \<open>try\<close> block: an exception before the two audio
  contexts are stored in their refs, an exception after that (\<open>getUserMedia\<close> rejects),
  or no exception, with the two new contexts and the new session promise. An exception
  carries \<open>err.message\<close>.
\<close>

datatype connect_env =
    ThrowsEarly "string option"
  | ThrowsLate nat nat "string option"
  | Connects nat nat nat

text \<open>\<open>err.message || "Failed to connect to microphone or API"\<close>: an empty message is falsy.\<close>

definition error_text :: "string option \<Rightarrow> string" where
  "error_text m =
     (case m of
        None \<Rightarrow> ''Failed to connect to microphone or API''
      | Some t \<Rightarrow> if t = [] then ''Failed to connect to microphone or API'' else t)"

definition connect :: "connect_env \<Rightarrow> hook_state \<Rightarrow> hook_state" where
  "connect env s =
     (if activeRef s then s
      else
        (let s1 = s\<lparr>isConnecting := True, error := None\<rparr> in
         case env of
           ThrowsEarly m \<Rightarrow> s1\<lparr>error := Some (error_text m), isConnecting := False\<rparr>
         | ThrowsLate inputCtx outputCtx m \<Rightarrow>
             s1\<lparr>inputAudioContextRef := Some inputCtx, outputAudioContextRef := Some outputCtx,
                error := Some (error_text m), isConnecting := False\<rparr>
         | Connects inputCtx outputCtx sessionPromise \<Rightarrow>
             s1\<lparr>inputAudioContextRef := Some inputCtx, outputAudioContextRef := Some outputCtx,
                sessionPromiseRef := Some sessionPromise\<rparr>))"

definition onopen :: "hook_state \<Rightarrow> hook_state" where
  "onopen s = s\<lparr>isConnected := True, isConnecting := False, activeRef := True\<rparr>"

text \<open>\<open>scriptProcessor.onaudioprocess\<close>; \<open>pcmBlob\<close> is what \<open>createBlob\<close> makes of the frame.\<close>

definition onaudioprocess :: "string \<Rightarrow> hook_state \<Rightarrow> hook_state" where
  "onaudioprocess pcmBlob s =
     (if \<not> activeRef s then s else s\<lparr>sent := sent s @ [SendRealtimeInput pcmBlob]\<rparr>)"

text \<open>
  The body of the loop over \<open>message.toolCall.functionCalls\<close>. Reading a property of an
  undefined \<open>args\<close> throws, which ends the handler: the result is the state reached and
  the exception, if any.
\<close>

fun functionCalls_loop ::
  "(string \<Rightarrow> number) \<Rightarrow> function_call list \<Rightarrow> hook_state \<Rightarrow> hook_state \<times> js_error option" where
  "functionCalls_loop s2n [] s = (s, None)"
| "functionCalls_loop s2n (fc # fcs) s =
     (if name_fc fc = ''performMathOperation'' then
        (case args_fc fc of
           None \<Rightarrow> (s, Some TypeError)
         | Some a \<Rightarrow>
             (let opType = opType_of (operation_arg a);
                  s1 = s\<lparr>called := called s @ [OnOperation opType (Number s2n (value_arg a))]\<rparr>;
                  s2 = s1\<lparr>sent := sent s1 @
                         [SendToolResponse (id_fc fc) (name_fc fc) ''ok, state updated'']\<rparr>
              in functionCalls_loop s2n fcs s2))
      else functionCalls_loop s2n fcs s)"

text \<open>\<open>if (message.toolCall) { for (const fc of message.toolCall.functionCalls) ... }\<close>\<close>

definition handle_toolCall ::
  "(string \<Rightarrow> number) \<Rightarrow> live_server_message \<Rightarrow> hook_state \<Rightarrow> hook_state \<times> js_error option" where
  "handle_toolCall s2n message s =
     (case toolCall message of
        None \<Rightarrow> (s, None)
      | Some tc \<Rightarrow>
          (case functionCalls tc of
             None \<Rightarrow> (s, Some TypeError)
           | Some fcs \<Rightarrow> functionCalls_loop s2n fcs s))"

text \<open>\<open>if (message.serverContent?.inputTranscription) onTranscriptUpdate(...text)\<close>\<close>

definition handle_transcript :: "live_server_message \<Rightarrow> hook_state \<Rightarrow> hook_state" where
  "handle_transcript message s =
     (case serverContent message of
        None \<Rightarrow> s
      | Some sc \<Rightarrow>
          (case inputTranscription sc of
             None \<Rightarrow> s
           | Some text \<Rightarrow> s\<lparr>called := called s @ [OnTranscriptUpdate text]\<rparr>))"

text \<open>
  \<open>message.serverContent?.modelTurn?.parts[0]?.inlineData?.data\<close>. The chain guards
  \<open>serverContent\<close>, \<open>modelTurn\<close>, the first part and its \<open>inlineData\<close>, not
  \<open>parts\<close>: indexing an undefined \<open>parts\<close> throws.
\<close>

definition base64Audio_of :: "live_server_message \<Rightarrow> js_error + string option" where
  "base64Audio_of message =
     (case serverContent message of
        None \<Rightarrow> Inr None
      | Some sc \<Rightarrow>
          (case modelTurn sc of
             None \<Rightarrow> Inr None
           | Some mt \<Rightarrow>
               (case parts mt of
                  None \<Rightarrow> Inl TypeError
                | Some [] \<Rightarrow> Inr None
                | Some (p # ps) \<Rightarrow> Inr (inlineData_part p))))"

text \<open>
  What the audio part of \<open>onmessage\<close> reads from its environment: \<open>ctx.currentTime\<close>,
  the duration of the buffer \<open>decodeAudioData\<close> returns (\<open>None\<close> when decoding fails
  and the handler's promise rejects), and the identity of the node
  \<open>ctx.createBufferSource()\<close> creates.
\<close>

record audio_env =
  currentTime :: real
  decoded :: "real option"
  new_node :: nat

definition add_source :: "source_node \<Rightarrow> source_node list \<Rightarrow> source_node list" where
  "add_source src srcs = (if src \<in> set srcs then srcs else srcs @ [src])"

text \<open>The playback scheduler: the last block of \<open>onmessage\<close>. An empty base64 string is falsy.\<close>

definition handle_audio :: "string option \<Rightarrow> audio_env \<Rightarrow> hook_state \<Rightarrow> hook_state \<times> js_error option" where
  "handle_audio base64Audio env s =
     (case base64Audio of
        None \<Rightarrow> (s, None)
      | Some b \<Rightarrow>
          if b = [] then (s, None)
          else
            (case outputAudioContextRef s of
               None \<Rightarrow> (s, None)
             | Some ctx \<Rightarrow>
                 (let s1 = s\<lparr>nextStartTimeRef := max (nextStartTimeRef s) (currentTime env)\<rparr> in
                  case decoded env of
                    None \<Rightarrow> (s1, Some DecodeError)
                  | Some duration \<Rightarrow>
                      (let source = \<lparr>node_id = new_node env, buffer_duration = duration\<rparr>;
                           s2 = s1\<lparr>audio := audio s1 @ [SourceStart source (nextStartTimeRef s1)]\<rparr>;
                           s3 = s2\<lparr>nextStartTimeRef := nextStartTimeRef s2 + duration\<rparr>;
                           s4 = s3\<lparr>sourcesRef := add_source source (sourcesRef s3)\<rparr>
                       in (s4, None)))))"

definition onmessage ::
  "(string \<Rightarrow> number) \<Rightarrow> live_server_message \<Rightarrow> audio_env \<Rightarrow> hook_state \<Rightarrow> hook_state \<times> js_error option" where
  "onmessage s2n message env s =
     (case handle_toolCall s2n message s of
        (s1, Some e) \<Rightarrow> (s1, Some e)
      | (s1, None) \<Rightarrow>
          (let s2 = handle_transcript message s1 in
           case base64Audio_of message of
             Inl e \<Rightarrow> (s2, Some e)
           | Inr base64Audio \<Rightarrow> handle_audio base64Audio env s2))"

text \<open>The listener for \<open>ended\<close> that \<open>onmessage\<close> adds to each source.\<close>

definition onended :: "source_node \<Rightarrow> hook_state \<Rightarrow> hook_state" where
  "onended source s = s\<lparr>sourcesRef := removeAll source (sourcesRef s)\<rparr>"

definition onclose :: "hook_state \<Rightarrow> hook_state" where
  "onclose s = s\<lparr>isConnected := False, activeRef := False\<rparr>"

definition onerror :: "hook_state \<Rightarrow> hook_state" where
  "onerror s = s\<lparr>error := Some ''Connection error occurred.'', isConnected := False, activeRef := False\<rparr>"

definition stop_microphone :: "hook_state \<Rightarrow> hook_state" where
  "stop_microphone s =
     (case inputAudioContextRef s of
        None \<Rightarrow> s
      | Some ctx \<Rightarrow> s\<lparr>audio := audio s @ [ContextClose ctx], inputAudioContextRef := None\<rparr>)"

definition stop_speakers :: "hook_state \<Rightarrow> hook_state" where
  "stop_speakers s =
     (case outputAudioContextRef s of
        None \<Rightarrow> s
      | Some ctx \<Rightarrow>
          s\<lparr>audio := audio s @ map SourceStop (sourcesRef s) @ [ContextClose ctx],
            sourcesRef := [], outputAudioContextRef := None\<rparr>)"

definition close_session :: "hook_state \<Rightarrow> hook_state" where
  "close_session s =
     (case sessionPromiseRef s of
        None \<Rightarrow> s
      | Some p \<Rightarrow> s\<lparr>sent := sent s @ [SessionClose p], sessionPromiseRef := None\<rparr>)"

text \<open>
  \<open>disconnect()\<close>. No statement of it throws: each ref is tested before it is used,
  \<open>stop()\<close> is called on sources that have been started, and \<open>close()\<close> reports a
  failure through the promise it returns.
\<close>

definition disconnect :: "hook_state \<Rightarrow> hook_state" where
  "disconnect s =
     (let s1 = s\<lparr>activeRef := False\<rparr>;
          s2 = stop_microphone s1;
          s3 = stop_speakers s2;
          s4 = close_session s3
      in s4\<lparr>isConnected := False, isConnecting := False\<rparr>)"

text \<open>
  The events the hook reacts to, and the hook as a machine over them. An exception in a
  handler is reported beside the state it leaves; the run of later events goes on from
  that state, as a rejected promise of \<open>onmessage\<close> does not end the session.
\<close>

datatype event =
    Connect connect_env
  | OnOpen
  | OnAudioProcess string
  | OnMessage live_server_message audio_env
  | OnEnded source_node
  | OnClose
  | OnError
  | Disconnect

fun handle :: "(string \<Rightarrow> number) \<Rightarrow> event \<Rightarrow> hook_state \<Rightarrow> hook_state \<times> js_error option" where
  "handle s2n (Connect env) s = (connect env s, None)"
| "handle s2n OnOpen s = (onopen s, None)"
| "handle s2n (OnAudioProcess pcmBlob) s = (onaudioprocess pcmBlob s, None)"
| "handle s2n (OnMessage message env) s = onmessage s2n message env s"
| "handle s2n (OnEnded source) s = (onended source s, None)"
| "handle s2n OnClose s = (onclose s, None)"
| "handle s2n OnError s = (onerror s, None)"
| "handle s2n Disconnect s = (disconnect s, None)"

definition step :: "(string \<Rightarrow> number) \<Rightarrow> hook_state \<Rightarrow> event \<Rightarrow> hook_state" where
  "step s2n s e = fst (handle s2n e s)"

definition run :: "(string \<Rightarrow> number) \<Rightarrow> event list \<Rightarrow> hook_state \<Rightarrow> hook_state" where
  "run s2n es s = foldl (step s2n) s es"

section \<open>The App wired to the hook\<close>

text \<open>
  The App passes \<open>handleOperation\<close> as \<open>onOperation\<close> and \<open>handleTranscript\<close> as
  \<open>onTranscriptUpdate\<close>: what one call of a callback does to the App's state.
\<close>

fun deliver :: "callback \<Rightarrow> string \<Rightarrow> nat \<Rightarrow> app_state \<Rightarrow> app_state" where
  "deliver (OnOperation op v) uuid now a = handleOperation op v uuid now a"
| "deliver (OnTranscriptUpdate text) uuid now a = handleTranscript text a"

section \<open>Reading the logs\<close>








fun is_frame :: "outbound \<Rightarrow> bool" where
  "is_frame (SendRealtimeInput b) = True"
| "is_frame _ = False"


definition sent_frames :: "outbound list \<Rightarrow> outbound list" where
  "sent_frames out = filter is_frame out"

text \<open>The start time and the duration of each source started, in the order started.\<close>

fun starts :: "audio_action list \<Rightarrow> (real \<times> real) list" where
  "starts [] = []"
| "starts (SourceStart source t # acts) = (t, buffer_duration source) # starts acts"
| "starts (a # acts) = starts acts"

text \<open>No source starts before the one started before it has finished.\<close>

fun no_overlap :: "(real \<times> real) list \<Rightarrow> bool" where
  "no_overlap (a # b # rest) = (fst a + snd a \<le> fst b \<and> no_overlap (b # rest))"
| "no_overlap _ = True"

text \<open>The duration of a decoded buffer is not negative.\<close>

fun nonneg_duration :: "event \<Rightarrow> bool" where
  "nonneg_duration (OnMessage message env) = (case decoded env of None \<Rightarrow> True | Some d \<Rightarrow> 0 \<le> d)"
| "nonneg_duration _ = True"

text \<open>The events that begin a new session: a call of \<open>connect()\<close> and the \<open>onopen\<close> that follows it.\<close>

fun begins_session :: "event \<Rightarrow> bool" where
  "begins_session (Connect env) = True"
| "begins_session OnOpen = True"
| "begins_session _ = False"

text \<open>
  The invariant of the playback scheduler: the sources started do not overlap, their
  start times are in order, and each has started and ended by the watermark.
\<close>

definition watermark_ok :: "hook_state \<Rightarrow> bool" where
  "watermark_ok s =
     (no_overlap (starts (audio s)) \<and> sorted (map fst (starts (audio s))) \<and>
      (\<forall>a \<in> set (starts (audio s)). fst a \<le> nextStartTimeRef s \<and> fst a + snd a \<le> nextStartTimeRef s))"

section \<open>Example inputs\<close>

definition math_call :: "string \<Rightarrow> jsval \<Rightarrow> jsval \<Rightarrow> function_call" where
  "math_call i opKey v =
     \<lparr>id_fc = i, name_fc = ''performMathOperation'',
      args_fc = Some \<lparr>operation_arg = opKey, value_arg = v\<rparr>\<rparr>"

definition tool_message :: "function_call list \<Rightarrow> live_server_message" where
  "tool_message fcs = \<lparr>toolCall = Some \<lparr>functionCalls = Some fcs\<rparr>, serverContent = None\<rparr>"

definition transcript_message :: "string \<Rightarrow> live_server_message" where
  "transcript_message text =
     \<lparr>toolCall = None,
      serverContent = Some \<lparr>inputTranscription = Some text, modelTurn = None\<rparr>\<rparr>"

definition audio_message :: "string \<Rightarrow> live_server_message" where
  "audio_message b =
     \<lparr>toolCall = None,
      serverContent = Some \<lparr>inputTranscription = None,
        modelTurn = Some \<lparr>parts = Some [\<lparr>inlineData_part = Some b\<rparr>]\<rparr>\<rparr>\<rparr>"

text \<open>An environment for a message without audio, and one for a fragment that decodes.\<close>

definition no_audio :: audio_env where
  "no_audio = \<lparr>currentTime = 0, decoded = None, new_node = 0\<rparr>"

definition fragment :: "real \<Rightarrow> real \<Rightarrow> nat \<Rightarrow> audio_env" where
  "fragment now d n = \<lparr>currentTime = now, decoded = Some d, new_node = n\<rparr>"

text \<open>A session that has been opened: \<open>connect()\<close> succeeded and \<open>onopen\<close> has run.\<close>

definition open_session :: "event list" where
  "open_session = [Connect (Connects 1 2 3), OnOpen]"

text \<open>
  A sequence of calls of the operation callback: add 50, divide by 0, an unknown operation, multiply by 2, reset, subtract 3.
\<close>

definition example_calls :: "op_call list" where
  "example_calls =
     [\<lparr>op_c = Member ADD, value_c = Fin 50, uuid_c = ''a'', now_c = 1\<rparr>,
      \<lparr>op_c = Member DIVIDE, value_c = Fin 0, uuid_c = ''b'', now_c = 2\<rparr>,
      \<lparr>op_c = Member UNKNOWN, value_c = NaN, uuid_c = ''c'', now_c = 3\<rparr>,
      \<lparr>op_c = Member MULTIPLY, value_c = Fin 2, uuid_c = ''d'', now_c = 4\<rparr>,
      \<lparr>op_c = Member RESET, value_c = Fin 0, uuid_c = ''e'', now_c = 5\<rparr>,
      \<lparr>op_c = Member SUBTRACT, value_c = Fin 3, uuid_c = ''f'', now_c = 6\<rparr>]"


definition playing_session :: "event list" where
  "playing_session = open_session @ [OnMessage (audio_message ''UklGRg=='') (fragment 1 (1/2) 7)]"


definition two_fragments :: "event list" where
  "two_fragments =
     open_session @
     [OnMessage (audio_message ''UklGRg=='') (fragment 1 (1/2) 7),
      OnMessage (audio_message ''UklGRg=='') (fragment (21/20) (3/10) 8)]"

definition late_events :: "event list" where
  "late_events =
     [OnAudioProcess ''pcm'',
      OnMessage (tool_message [math_call ''1'' (JStr ''ADD'') (JNum (Fin 50))]) no_audio,
      OnMessage (transcript_message ''add fifty'') no_audio,
      OnMessage (audio_message ''UklGRg=='') (fragment 2 (1/2) 9)]"

section \<open>Properties of the App and the Visualizer\<close>

lemma forEach_history_last:
  "points \<noteq> [] \<Longrightarrow> total (last points) = r \<Longrightarrow>
   total (last (forEach_history idx hs r points)) = foldl chart_step r hs"
  by (induction hs arbitrary: idx r points) (simp_all add: Let_def)

lemma visualizer_last: "total (last (visualizer_data hs)) = foldl chart_step (Fin 0) hs"
  unfolding visualizer_data_def by (rule forEach_history_last) simp_all

lemma chart_step_switch:
  "op \<noteq> Member RESET \<Longrightarrow>
   chart_step r \<lparr>id_h = u, value_h = v, operation_h = op, timestamp_h = t\<rparr> = switch_op op r v"
proof (cases op)
  case (Member m)
  assume "op \<noteq> Member RESET"
  with Member show ?thesis by (cases m) (simp_all add: chart_step_def)
next
  case (Inherited k)
  then show ?thesis by (simp add: chart_step_def)
qed

lemma handleOperation_chart:
  "currentTotal a = foldl chart_step (Fin 0) (history a) \<Longrightarrow>
   currentTotal (handleOperation op v u t a) =
     foldl chart_step (Fin 0) (history (handleOperation op v u t a))"
  by (cases "op = Member RESET") (simp_all add: handleOperation_def Let_def chart_step_switch)

lemma apply_calls_chart:
  "currentTotal a = foldl chart_step (Fin 0) (history a) \<Longrightarrow>
   currentTotal (apply_calls cs a) = foldl chart_step (Fin 0) (history (apply_calls cs a))"
proof (induction cs arbitrary: a)
  case Nil
  then show ?case by (simp add: apply_calls_def)
next
  case (Cons c cs)
  have "currentTotal (apply_call a c) = foldl chart_step (Fin 0) (history (apply_call a c))"
    unfolding apply_call_def using Cons.prems by (rule handleOperation_chart)
  then have "currentTotal (apply_calls cs (apply_call a c)) =
             foldl chart_step (Fin 0) (history (apply_calls cs (apply_call a c)))"
    by (rule Cons.IH)
  then show ?case by (simp add: apply_calls_def)
qed

lemma history_handleOperation_no_reset:
  "Member RESET \<notin> set (map operation_h (history a)) \<Longrightarrow>
   Member RESET \<notin> set (map operation_h (history (handleOperation op v u t a)))"
  by (cases "op = Member RESET") (simp_all add: handleOperation_def Let_def)

lemma history_apply_calls_no_reset:
  "Member RESET \<notin> set (map operation_h (history a)) \<Longrightarrow>
   Member RESET \<notin> set (map operation_h (history (apply_calls cs a)))"
proof (induction cs arbitrary: a)
  case Nil
  then show ?case by (simp add: apply_calls_def)
next
  case (Cons c cs)
  have "Member RESET \<notin> set (map operation_h (history (apply_call a c)))"
    unfolding apply_call_def using Cons.prems by (rule history_handleOperation_no_reset)
  then have "Member RESET \<notin> set (map operation_h (history (apply_calls cs (apply_call a c))))"
    by (rule Cons.IH)
  then show ?case by (simp add: apply_calls_def)
qed

section \<open>Claims about the App\<close>

text \<open>
  C9. For every sequence of (operation, value) pairs applied through the App's operation
  callback, starting from the App's initial state, the running total the App holds equals
  the total of the last point the Visualizer computes from the resulting history list.
  The two computations agree on the guard against dividing by zero and on operations that
  are not one of the five arithmetic ones, which leave the total as it is.
\<close>

theorem C9_total_is_last_chart_point:
  "total (last (visualizer_data (history (apply_calls cs app_initial)))) =
   currentTotal (apply_calls cs app_initial)"
proof -
  have "currentTotal app_initial = foldl chart_step (Fin 0) (history app_initial)"
    by (simp add: app_initial_def)
  then have "currentTotal (apply_calls cs app_initial) =
             foldl chart_step (Fin 0) (history (apply_calls cs app_initial))"
    by (rule apply_calls_chart)
  then show ?thesis by (simp add: visualizer_last)
qed

theorem C9_witness:
  "total (last (visualizer_data (history (apply_calls example_calls app_initial)))) = Fin (- 3) \<and>
   currentTotal (apply_calls example_calls app_initial) = Fin (- 3)"
proof -
  have "currentTotal (apply_calls example_calls app_initial) = Fin (- 3)"
    by (simp add: example_calls_def apply_calls_def apply_call_def handleOperation_def
        app_initial_def neq_zero_def)
  then show ?thesis using C9_total_is_last_chart_point [of example_calls] by simp
qed

text \<open>
  C10. A Reset operation sets the running total to 0 and empties the history list. So,
  for every sequence of operations applied through the App's operation callback from the
  App's initial state, no item of the history list has the operation Reset. An Unknown
  operation is appended to the history with its operand.
\<close>

theorem C10_reset_never_in_history:
  "currentTotal (handleOperation (Member RESET) v u t a) = Fin 0 \<and>
   history (handleOperation (Member RESET) v u t a) = [] \<and>
   Member RESET \<notin> set (map operation_h (history (apply_calls cs app_initial))) \<and>
   history (handleOperation (Member UNKNOWN) v u t a) =
     history a @ [\<lparr>id_h = u, value_h = v, operation_h = Member UNKNOWN, timestamp_h = t\<rparr>]"
proof -
  have "Member RESET \<notin> set (map operation_h (history app_initial))"
    by (simp add: app_initial_def)
  then have "Member RESET \<notin> set (map operation_h (history (apply_calls cs app_initial)))"
    by (rule history_apply_calls_no_reset)
  then show ?thesis by (simp add: handleOperation_def)
qed

theorem C10_witness:
  "map operation_h (history (apply_calls example_calls app_initial)) = [Member SUBTRACT] \<and>
   Member RESET \<notin> set (map operation_h (history (apply_calls example_calls app_initial)))"
proof -
  have "map operation_h (history (apply_calls example_calls app_initial)) = [Member SUBTRACT]"
    by (simp add: example_calls_def apply_calls_def apply_call_def handleOperation_def
        app_initial_def neq_zero_def)
  then show ?thesis
    using C10_reset_never_in_history [of "Fin 0" "''e''" 5 app_initial example_calls] by simp
qed

section \<open>Properties of the session hook\<close>

lemma run_Cons: "run s2n (e # es) s = run s2n es (step s2n s e)"
  by (simp add: run_def)

subsection \<open>Acknowledgements\<close>







subsection \<open>What the parts of onmessage leave unchanged\<close>

lemma loop_fields:
  "activeRef (fst (functionCalls_loop s2n fcs s)) = activeRef s \<and>
   outputAudioContextRef (fst (functionCalls_loop s2n fcs s)) = outputAudioContextRef s \<and>
   nextStartTimeRef (fst (functionCalls_loop s2n fcs s)) = nextStartTimeRef s \<and>
   audio (fst (functionCalls_loop s2n fcs s)) = audio s \<and>
   sent_frames (sent (fst (functionCalls_loop s2n fcs s))) = sent_frames (sent s)"
  by (induction fcs arbitrary: s) (simp_all add: Let_def sent_frames_def split: option.splits)

lemma handle_toolCall_fields:
  "activeRef (fst (handle_toolCall s2n message s)) = activeRef s \<and>
   outputAudioContextRef (fst (handle_toolCall s2n message s)) = outputAudioContextRef s \<and>
   nextStartTimeRef (fst (handle_toolCall s2n message s)) = nextStartTimeRef s \<and>
   audio (fst (handle_toolCall s2n message s)) = audio s \<and>
   sent_frames (sent (fst (handle_toolCall s2n message s))) = sent_frames (sent s)"
  by (simp add: handle_toolCall_def loop_fields split: option.splits)

lemma handle_transcript_fields:
  "activeRef (handle_transcript message s) = activeRef s \<and>
   outputAudioContextRef (handle_transcript message s) = outputAudioContextRef s \<and>
   nextStartTimeRef (handle_transcript message s) = nextStartTimeRef s \<and>
   audio (handle_transcript message s) = audio s \<and>
   sent (handle_transcript message s) = sent s"
  by (simp add: handle_transcript_def split: option.splits)

lemma handle_audio_no_context:
  "outputAudioContextRef s = None \<Longrightarrow> handle_audio b env s = (s, None)"
  by (simp add: handle_audio_def split: option.splits)

text \<open>Before its audio part, \<open>onmessage\<close> has changed only the logs \<open>called\<close> and \<open>sent\<close>.\<close>

lemma onmessage_cases:
  obtains (threw) e where "onmessage s2n message env s = (fst (handle_toolCall s2n message s), Some e)"
  | (threw_late) e where "onmessage s2n message env s =
        (handle_transcript message (fst (handle_toolCall s2n message s)), Some e)"
  | (audio) b where "onmessage s2n message env s =
        handle_audio b env (handle_transcript message (fst (handle_toolCall s2n message s)))"
proof (cases "handle_toolCall s2n message s")
  case (Pair s1 err)
  show ?thesis
  proof (cases err)
    case None
    show ?thesis
    proof (cases "base64Audio_of message")
      case (Inl e)
      with Pair None have "onmessage s2n message env s =
        (handle_transcript message (fst (handle_toolCall s2n message s)), Some e)"
        by (simp add: onmessage_def)
      then show ?thesis by (rule threw_late)
    next
      case (Inr b)
      with Pair None have "onmessage s2n message env s =
        handle_audio b env (handle_transcript message (fst (handle_toolCall s2n message s)))"
        by (simp add: onmessage_def)
      then show ?thesis by (rule audio)
    qed
  next
    case (Some e)
    with Pair have "onmessage s2n message env s = (fst (handle_toolCall s2n message s), Some e)"
      by (simp add: onmessage_def)
    then show ?thesis by (rule threw)
  qed
qed

lemma onmessage_no_context:
  assumes "outputAudioContextRef s = None"
  shows "activeRef (fst (onmessage s2n message env s)) = activeRef s \<and>
   outputAudioContextRef (fst (onmessage s2n message env s)) = None \<and>
   audio (fst (onmessage s2n message env s)) = audio s \<and>
   sent_frames (sent (fst (onmessage s2n message env s))) = sent_frames (sent s)"
proof (cases rule: onmessage_cases [of s2n message env s])
  case (threw e)
  then show ?thesis using assms by (simp add: handle_toolCall_fields)
next
  case (threw_late e)
  then show ?thesis using assms by (simp add: handle_toolCall_fields handle_transcript_fields)
next
  case (audio b)
  have "outputAudioContextRef (handle_transcript message (fst (handle_toolCall s2n message s))) = None"
    using assms by (simp add: handle_toolCall_fields handle_transcript_fields)
  then have "handle_audio b env (handle_transcript message (fst (handle_toolCall s2n message s))) =
    (handle_transcript message (fst (handle_toolCall s2n message s)), None)"
    by (rule handle_audio_no_context)
  with audio show ?thesis using assms by (simp add: handle_toolCall_fields handle_transcript_fields)
qed

subsection \<open>After disconnect\<close>

lemma starts_append: "starts (xs @ ys) = starts xs @ starts ys"
  by (induction xs rule: starts.induct) simp_all

lemma starts_stops: "starts (map SourceStop srcs) = []"
  by (induction srcs) simp_all

lemma disconnect_logs:
  "sent_frames (sent (disconnect s)) = sent_frames (sent s) \<and>
   starts (audio (disconnect s)) = starts (audio s) \<and>
   nextStartTimeRef (disconnect s) = nextStartTimeRef s"
  by (cases "inputAudioContextRef s"; cases "outputAudioContextRef s"; cases "sessionPromiseRef s")
     (simp_all add: disconnect_def Let_def stop_microphone_def stop_speakers_def close_session_def
        sent_frames_def starts_append starts_stops)

lemma disconnect_flags:
  "\<not> isConnected (disconnect s) \<and> \<not> isConnecting (disconnect s) \<and> \<not> activeRef (disconnect s) \<and>
   inputAudioContextRef (disconnect s) = None \<and> outputAudioContextRef (disconnect s) = None \<and>
   sessionPromiseRef (disconnect s) = None"
  by (cases "inputAudioContextRef s"; cases "outputAudioContextRef s"; cases "sessionPromiseRef s")
     (simp_all add: disconnect_def Let_def stop_microphone_def stop_speakers_def close_session_def)

lemma step_torn_down:
  assumes "\<not> activeRef s" and "outputAudioContextRef s = None" and "\<not> begins_session e"
  shows "\<not> activeRef (step s2n s e) \<and> outputAudioContextRef (step s2n s e) = None \<and>
         sent_frames (sent (step s2n s e)) = sent_frames (sent s) \<and>
         starts (audio (step s2n s e)) = starts (audio s)"
proof (cases e)
  case (OnMessage message env)
  then show ?thesis using assms onmessage_no_context [of s s2n message env]
    by (simp add: step_def)
next
  case Disconnect
  then show ?thesis by (simp add: step_def disconnect_flags disconnect_logs)
qed (use assms in \<open>simp_all add: step_def onaudioprocess_def onended_def onclose_def onerror_def\<close>)

lemma run_torn_down:
  "\<not> activeRef s \<Longrightarrow> outputAudioContextRef s = None \<Longrightarrow> \<not> list_ex begins_session es \<Longrightarrow>
   sent_frames (sent (run s2n es s)) = sent_frames (sent s) \<and>
   starts (audio (run s2n es s)) = starts (audio s)"
proof (induction es arbitrary: s)
  case Nil
  then show ?case by (simp add: run_def)
next
  case (Cons e es)
  from Cons.prems have e: "\<not> begins_session e" and es: "\<not> list_ex begins_session es"
    by simp_all
  from Cons.prems(1,2) e have here:
    "\<not> activeRef (step s2n s e) \<and> outputAudioContextRef (step s2n s e) = None \<and>
     sent_frames (sent (step s2n s e)) = sent_frames (sent s) \<and>
     starts (audio (step s2n s e)) = starts (audio s)"
    by (rule step_torn_down)
  then have "sent_frames (sent (run s2n es (step s2n s e))) = sent_frames (sent (step s2n s e)) \<and>
        starts (audio (run s2n es (step s2n s e))) = starts (audio (step s2n s e))"
    using es by (intro Cons.IH) simp_all
  with here show ?case by (simp add: run_Cons)
qed

text \<open>
  What the guard in \<open>onaudioprocess\<close> and the test of the output context in the
  scheduler do stop after \<open>disconnect()\<close>, until a session is begun again: the sending
  of frames and the starting of sources.
\<close>

lemma no_frames_no_playback_after_disconnect:
  "\<not> list_ex begins_session es \<Longrightarrow>
   sent_frames (sent (run s2n es (disconnect s))) = sent_frames (sent (disconnect s)) \<and>
   starts (audio (run s2n es (disconnect s))) = starts (audio (disconnect s))"
  by (rule run_torn_down) (simp_all add: disconnect_flags)

subsection \<open>The playback watermark\<close>

lemma no_overlap_snoc:
  "no_overlap xs \<Longrightarrow> \<forall>a \<in> set xs. fst a + snd a \<le> fst b \<Longrightarrow> no_overlap (xs @ [b])"
proof (induction xs)
  case Nil
  then show ?case by simp
next
  case (Cons a xs)
  then show ?case by (cases xs) simp_all
qed

lemma handle_audio_scheduled:
  "b \<noteq> [] \<Longrightarrow> outputAudioContextRef s \<noteq> None \<Longrightarrow> decoded env = Some d \<Longrightarrow>
   audio (fst (handle_audio (Some b) env s)) =
     audio s @ [SourceStart \<lparr>node_id = new_node env, buffer_duration = d\<rparr>
                  (max (nextStartTimeRef s) (currentTime env))] \<and>
   nextStartTimeRef (fst (handle_audio (Some b) env s)) =
     max (nextStartTimeRef s) (currentTime env) + d"
  by (auto simp: handle_audio_def Let_def)

text \<open>
  What the scheduler does to the log and the watermark: nothing, or the watermark rises to
  the clock (decoding failed), or a source is started at the risen watermark, which then
  moves to the end of that source.
\<close>

lemma handle_audio_cases:
  obtains (skipped) "audio (fst (handle_audio b env s)) = audio s"
      "nextStartTimeRef (fst (handle_audio b env s)) = nextStartTimeRef s"
  | (failed) "decoded env = None" "audio (fst (handle_audio b env s)) = audio s"
      "nextStartTimeRef (fst (handle_audio b env s)) = max (nextStartTimeRef s) (currentTime env)"
  | (started) d src where "decoded env = Some d" "buffer_duration src = d"
      "audio (fst (handle_audio b env s)) =
         audio s @ [SourceStart src (max (nextStartTimeRef s) (currentTime env))]"
      "nextStartTimeRef (fst (handle_audio b env s)) =
         max (nextStartTimeRef s) (currentTime env) + d"
proof (cases "b = None \<or> b = Some [] \<or> outputAudioContextRef s = None")
  case True
  then have "handle_audio b env s = (s, None)"
    by (auto simp: handle_audio_def split: option.splits)
  then show ?thesis by (intro skipped) simp_all
next
  case False
  then obtain str ctx where b: "b = Some str" "str \<noteq> []" and ctx: "outputAudioContextRef s = Some ctx"
    by auto
  show ?thesis
  proof (cases "decoded env")
    case None
    with b ctx show ?thesis by (intro failed) (simp_all add: handle_audio_def)
  next
    case (Some d)
    with b ctx show ?thesis
      by (intro started [of d "\<lparr>node_id = new_node env, buffer_duration = d\<rparr>"])
         (simp_all add: handle_audio_def Let_def)
  qed
qed

lemma watermark_ok_same:
  "watermark_ok s \<Longrightarrow> starts (audio s') = starts (audio s) \<Longrightarrow>
   nextStartTimeRef s \<le> nextStartTimeRef s' \<Longrightarrow> watermark_ok s'"
  by (fastforce simp: watermark_ok_def)

lemma watermark_ok_started:
  assumes "watermark_ok s" and "0 \<le> d" and "buffer_duration src = d"
    and "nextStartTimeRef s \<le> t"
    and "audio s' = audio s @ [SourceStart src t]"
    and "nextStartTimeRef s' = t + d"
  shows "watermark_ok s'"
proof -
  have st: "starts (audio s') = starts (audio s) @ [(t, d)]"
    using assms(3,5) by (simp add: starts_append)
  have before: "\<forall>a \<in> set (starts (audio s)). fst a \<le> t \<and> fst a + snd a \<le> t"
    using assms(1,4) by (fastforce simp: watermark_ok_def)
  have "no_overlap (starts (audio s) @ [(t, d)])"
    using assms(1) before by (intro no_overlap_snoc) (simp_all add: watermark_ok_def)
  moreover have "sorted (map fst (starts (audio s) @ [(t, d)]))"
    using assms(1) before by (simp add: watermark_ok_def sorted_append)
  moreover have "\<forall>a \<in> set (starts (audio s) @ [(t, d)]). fst a \<le> t + d \<and> fst a + snd a \<le> t + d"
    using before assms(2) by fastforce
  ultimately show ?thesis by (simp add: watermark_ok_def st assms(6))
qed

lemma handle_audio_watermark_ok:
  assumes "watermark_ok s" and "case decoded env of None \<Rightarrow> True | Some d \<Rightarrow> 0 \<le> d"
  shows "watermark_ok (fst (handle_audio b env s))"
proof (cases rule: handle_audio_cases [of b env s])
  case skipped
  then show ?thesis by (intro watermark_ok_same [OF assms(1)]) simp_all
next
  case failed
  then show ?thesis by (intro watermark_ok_same [OF assms(1)]) simp_all
next
  case (started d src)
  from started(1) assms(2) have "0 \<le> d" by simp
  then show ?thesis using started(2-4)
    by (intro watermark_ok_started [OF assms(1), of d src "max (nextStartTimeRef s) (currentTime env)"])
       simp_all
qed

lemma onmessage_watermark_ok:
  assumes "watermark_ok s" and "case decoded env of None \<Rightarrow> True | Some d \<Rightarrow> 0 \<le> d"
  shows "watermark_ok (fst (onmessage s2n message env s))"
proof -
  let ?s2 = "handle_transcript message (fst (handle_toolCall s2n message s))"
  have mid: "watermark_ok (fst (handle_toolCall s2n message s))" "watermark_ok ?s2"
    by (rule watermark_ok_same [OF assms(1)];
        simp add: handle_toolCall_fields handle_transcript_fields)+
  show ?thesis
  proof (cases rule: onmessage_cases [of s2n message env s])
    case (threw e)
    with mid show ?thesis by simp
  next
    case (threw_late e)
    with mid show ?thesis by simp
  next
    case (audio b)
    with mid(2) assms(2) show ?thesis by (simp add: handle_audio_watermark_ok)
  qed
qed

lemma step_watermark_ok:
  assumes "watermark_ok s" and "nonneg_duration e"
  shows "watermark_ok (step s2n s e)"
proof (cases e)
  case (Connect env)
  have "starts (audio (connect env s)) = starts (audio s) \<and>
        nextStartTimeRef (connect env s) = nextStartTimeRef s"
    by (cases env) (simp_all add: connect_def Let_def)
  with Connect show ?thesis
    by (intro watermark_ok_same [OF assms(1)]) (simp_all add: step_def)
next
  case (OnMessage message env)
  with assms show ?thesis by (simp add: step_def onmessage_watermark_ok)
next
  case Disconnect
  then show ?thesis
    by (intro watermark_ok_same [OF assms(1)]) (simp_all add: step_def disconnect_logs)
qed (rule watermark_ok_same [OF assms(1)];
     simp add: step_def onopen_def onaudioprocess_def onended_def onclose_def onerror_def)+

lemma run_watermark_ok:
  "watermark_ok s \<Longrightarrow> list_all nonneg_duration es \<Longrightarrow> watermark_ok (run s2n es s)"
proof (induction es arbitrary: s)
  case Nil
  then show ?case by (simp add: run_def)
next
  case (Cons e es)
  then show ?case by (simp add: run_Cons step_watermark_ok)
qed

subsection \<open>Messages with tool calls only, disconnect twice, operation names\<close>

lemma onmessage_tool_only:
  "onmessage s2n (tool_message fcs) env s = functionCalls_loop s2n fcs s"
  by (simp add: onmessage_def tool_message_def handle_toolCall_def handle_transcript_def
      base64Audio_of_def handle_audio_def split: prod.splits option.splits)

lemma disconnect_settled:
  "\<not> isConnected s \<Longrightarrow> \<not> isConnecting s \<Longrightarrow> \<not> activeRef s \<Longrightarrow>
   inputAudioContextRef s = None \<Longrightarrow> outputAudioContextRef s = None \<Longrightarrow>
   sessionPromiseRef s = None \<Longrightarrow> disconnect s = s"
  by (simp add: disconnect_def Let_def stop_microphone_def stop_speakers_def close_session_def)

lemma disconnect_twice: "disconnect (disconnect s) = disconnect s"
  by (rule disconnect_settled) (simp_all add: disconnect_flags)

lemma opType_of_other_name:
  "own_member k = None \<Longrightarrow> k \<notin> set Object_prototype_keys \<Longrightarrow> opType_of (JStr k) = Member UNKNOWN"
  by (simp add: opType_of_def get_property_def)

section \<open>Claims about the session hook\<close>

lemmas eval_defs =
  run_def step_def open_session_def connect_def onopen_def onaudioprocess_def onmessage_def
  handle_toolCall_def handle_transcript_def base64Audio_of_def handle_audio_def
  onended_def onclose_def onerror_def disconnect_def stop_microphone_def stop_speakers_def
  close_session_def hook_initial_def tool_message_def transcript_message_def audio_message_def
  math_call_def no_audio_def fragment_def opType_of_def get_property_def add_source_def
  no_numeric_string_def Let_def




text \<open>
  C2. A handler of \<open>onmessage\<close> runs to its end before the next event is handled.
  Then, for every sequence of events whose decoded fragments have durations that are not
  negative, arriving at any clock readings: the sources started, in the order started, do
  not overlap (each starts no earlier than the start of the one before it plus that one's
  duration), and their start times never decrease. A fragment that is scheduled starts at
  \<open>max(t_next, clock_now)\<close>, and \<open>t_next\<close> becomes that start plus the fragment's
  duration.
\<close>

theorem C2_playback_schedule:
  assumes "list_all nonneg_duration es"
  shows "no_overlap (starts (audio (run s2n es hook_initial))) \<and>
         sorted (map fst (starts (audio (run s2n es hook_initial)))) \<and>
         (b \<noteq> [] \<and> outputAudioContextRef s \<noteq> None \<and> decoded env = Some d \<longrightarrow>
            starts (audio (fst (handle_audio (Some b) env s))) =
              starts (audio s) @ [(max (nextStartTimeRef s) (currentTime env), d)] \<and>
            nextStartTimeRef (fst (handle_audio (Some b) env s)) =
              max (nextStartTimeRef s) (currentTime env) + d)"
proof -
  have "watermark_ok hook_initial"
    by (simp add: watermark_ok_def hook_initial_def)
  then have "watermark_ok (run s2n es hook_initial)"
    using assms by (rule run_watermark_ok)
  then show ?thesis
    by (simp add: watermark_ok_def handle_audio_scheduled starts_append)
qed

text \<open>
  Two fragments of 500 ms and 300 ms arrive 50 ms apart, the first when the clock reads
  1 s: the first starts at 1 s, the second at 1.5 s, and the watermark ends at 1.8 s.
\<close>

theorem C2_witness:
  "list_all nonneg_duration two_fragments \<and>
   starts (audio (run no_numeric_string two_fragments hook_initial)) = [(1, 1/2), (3/2, 3/10)] \<and>
   no_overlap (starts (audio (run no_numeric_string two_fragments hook_initial))) \<and>
   sorted (map fst (starts (audio (run no_numeric_string two_fragments hook_initial)))) \<and>
   outputAudioContextRef (run no_numeric_string playing_session hook_initial) \<noteq> None \<and>
   nextStartTimeRef (run no_numeric_string playing_session hook_initial) = 3/2 \<and>
   nextStartTimeRef (fst (handle_audio (Some ''UklGRg=='') (fragment (21/20) (3/10) 8)
     (run no_numeric_string playing_session hook_initial))) = 9/5"
proof -
  have h: "list_all nonneg_duration two_fragments"
    by (simp add: two_fragments_def open_session_def fragment_def)
  have st: "starts (audio (run no_numeric_string two_fragments hook_initial)) = [(1, 1/2), (3/2, 3/10)]"
    by (simp add: two_fragments_def eval_defs)
  have p: "outputAudioContextRef (run no_numeric_string playing_session hook_initial) \<noteq> None \<and>
           nextStartTimeRef (run no_numeric_string playing_session hook_initial) = 3/2"
    by (simp add: playing_session_def eval_defs)
  show ?thesis
    using h st p
      C2_playback_schedule [OF h, of no_numeric_string "''UklGRg==''"
        "run no_numeric_string playing_session hook_initial" "fragment (21/20) (3/10) 8" "3/10"]
    by (simp add: fragment_def)
qed

text \<open>
  C3. For every accumulator value, a tool invocation of \<open>performMathOperation\<close> with
  operation \<open>DIVIDE\<close> and operand 0 makes the hook call the operation callback with
  (Divide, 0) and send the acknowledgement with the invocation's identifier and the
  result "ok, state updated"; and that call of the callback leaves the App's running
  total as it was.
\<close>

theorem C3_divide_by_zero_acknowledged:
  "onmessage s2n (tool_message [math_call i (JStr ''DIVIDE'') (JNum (Fin 0))]) env s =
     (s\<lparr>called := called s @ [OnOperation (Member DIVIDE) (Fin 0)],
        sent := sent s @ [SendToolResponse i ''performMathOperation'' ''ok, state updated'']\<rparr>,
      None) \<and>
   currentTotal (deliver (OnOperation (Member DIVIDE) (Fin 0)) u t a) = currentTotal a"
  by (simp add: onmessage_tool_only math_call_def opType_of_def get_property_def
      handleOperation_def neq_zero_def)

text \<open>
  The remote service sends \<open>ADD 50\<close> and then \<open>DIVIDE 0\<close>: two calls of the
  callback, two acknowledgements, and a running total that stays at 50.
\<close>

theorem C3_witness:
  "called (run no_numeric_string
     (open_session @
      [OnMessage (tool_message [math_call ''1'' (JStr ''ADD'') (JNum (Fin 50))]) no_audio,
       OnMessage (tool_message [math_call ''2'' (JStr ''DIVIDE'') (JNum (Fin 0))]) no_audio])
     hook_initial) =
     [OnOperation (Member ADD) (Fin 50), OnOperation (Member DIVIDE) (Fin 0)] \<and>
   sent (run no_numeric_string
     (open_session @
      [OnMessage (tool_message [math_call ''1'' (JStr ''ADD'') (JNum (Fin 50))]) no_audio,
       OnMessage (tool_message [math_call ''2'' (JStr ''DIVIDE'') (JNum (Fin 0))]) no_audio])
     hook_initial) =
     [SendToolResponse ''1'' ''performMathOperation'' ''ok, state updated'',
      SendToolResponse ''2'' ''performMathOperation'' ''ok, state updated''] \<and>
   currentTotal (deliver (OnOperation (Member DIVIDE) (Fin 0)) ''b'' 2
     (deliver (OnOperation (Member ADD) (Fin 50)) ''a'' 1 app_initial)) = Fin 50"
proof -
  let ?s1 = "run no_numeric_string
     (open_session @
      [OnMessage (tool_message [math_call ''1'' (JStr ''ADD'') (JNum (Fin 50))]) no_audio])
     hook_initial"
  have s1: "called ?s1 = [OnOperation (Member ADD) (Fin 50)] \<and>
            sent ?s1 = [SendToolResponse ''1'' ''performMathOperation'' ''ok, state updated'']"
    by (simp add: run_def step_def open_session_def onmessage_tool_only math_call_def
        opType_of_def get_property_def connect_def onopen_def hook_initial_def)
  have a: "currentTotal (deliver (OnOperation (Member ADD) (Fin 50)) ''a'' 1 app_initial) = Fin 50"
    by (simp add: handleOperation_def app_initial_def)
  show ?thesis
    using s1 a
      C3_divide_by_zero_acknowledged [of no_numeric_string "''2''" no_audio ?s1 "''b''" 2
        "deliver (OnOperation (Member ADD) (Fin 50)) ''a'' 1 app_initial"]
    by (simp add: run_def step_def)
qed

text \<open>
  C4. What the code does with messages that arrive after teardown has begun: a session is
  opened and \<open>disconnect()\<close> clears the guard; then a captured frame, a tool
  invocation, a transcript and an audio fragment arrive. \<open>onaudioprocess\<close> tests the
  guard and sends nothing, and the scheduler finds no output context and starts nothing,
  but \<open>onmessage\<close> does not test the guard: the tool invocation is passed to the
  operation callback and acknowledged, and the transcript is passed to the transcript
  callback.
\<close>

theorem C4_messages_dispatched_after_disconnect:
  "\<not> activeRef (run no_numeric_string (open_session @ [Disconnect]) hook_initial) \<and>
   called (run no_numeric_string (open_session @ [Disconnect]) hook_initial) = [] \<and>
   sent (run no_numeric_string (open_session @ [Disconnect]) hook_initial) = [SessionClose 3] \<and>
   called (run no_numeric_string (open_session @ [Disconnect] @ late_events) hook_initial) =
     [OnOperation (Member ADD) (Fin 50), OnTranscriptUpdate ''add fifty''] \<and>
   sent (run no_numeric_string (open_session @ [Disconnect] @ late_events) hook_initial) =
     [SessionClose 3, SendToolResponse ''1'' ''performMathOperation'' ''ok, state updated''] \<and>
   audio (run no_numeric_string (open_session @ [Disconnect] @ late_events) hook_initial) =
     audio (run no_numeric_string (open_session @ [Disconnect]) hook_initial)"
  by (simp add: late_events_def eval_defs)

text \<open>
  C5. What the code does on a transport error in an open session that has a source
  scheduled: \<open>onerror\<close> sets the error message and clears \<open>isConnected\<close> and the
  guard, and nothing else. Both audio contexts stay in their refs and are not closed, the
  scheduled source is not stopped and stays in the active set, and the session is not
  closed. \<open>disconnect()\<close> in the same state does all of these.
\<close>

theorem C5_onerror_keeps_resources:
  "run no_numeric_string (playing_session @ [OnError]) hook_initial =
     \<lparr>isConnected = False, isConnecting = False, error = Some ''Connection error occurred.'',
      inputAudioContextRef = Some 1, outputAudioContextRef = Some 2, nextStartTimeRef = 3/2,
      sourcesRef = [\<lparr>node_id = 7, buffer_duration = 1/2\<rparr>], sessionPromiseRef = Some 3,
      activeRef = False, sent = [], called = [],
      audio = [SourceStart \<lparr>node_id = 7, buffer_duration = 1/2\<rparr> 1]\<rparr> \<and>
   run no_numeric_string (playing_session @ [Disconnect]) hook_initial =
     \<lparr>isConnected = False, isConnecting = False, error = None,
      inputAudioContextRef = None, outputAudioContextRef = None, nextStartTimeRef = 3/2,
      sourcesRef = [], sessionPromiseRef = None,
      activeRef = False, sent = [SessionClose 3], called = [],
      audio = [SourceStart \<lparr>node_id = 7, buffer_duration = 1/2\<rparr> 1, ContextClose 1,
               SourceStop \<lparr>node_id = 7, buffer_duration = 1/2\<rparr>, ContextClose 2]\<rparr>"
  by (simp add: playing_session_def eval_defs)

text \<open>
  C6. What the code does with the operation name \<open>constructor\<close>, which is outside the
  declared set: the lookup in the enum object finds the member inherited from
  \<open>Object.prototype\<close>, so the operation callback is called with that value and not
  with \<open>UNKNOWN\<close>. The callback is still called and the acknowledgement is still sent.
\<close>

theorem C6_inherited_name_not_unknown:
  "onmessage s2n (tool_message [math_call i (JStr ''constructor'') (JNum (Fin 5))]) env s =
     (s\<lparr>called := called s @ [OnOperation (Inherited ''constructor'') (Fin 5)],
        sent := sent s @ [SendToolResponse i ''performMathOperation'' ''ok, state updated'']\<rparr>,
      None) \<and>
   opType_of (JStr ''constructor'') \<noteq> Member UNKNOWN"
  by (simp add: onmessage_tool_only math_call_def opType_of_def get_property_def
      Object_prototype_keys_def)

text \<open>
  C7. When the guard is set, which \<open>onopen\<close> does, \<open>connect()\<close> returns at once:
  the state of the hook is unchanged, so no audio context is created, no session is
  opened, and \<open>isConnected\<close>, \<open>isConnecting\<close> and \<open>error\<close> keep their values.
\<close>

theorem C7_connect_while_active:
  "activeRef s \<Longrightarrow> connect env s = s"
  by (simp add: connect_def)

theorem C7_witness:
  "activeRef (run no_numeric_string open_session hook_initial) \<and>
   connect (Connects 4 5 6) (run no_numeric_string open_session hook_initial) =
     run no_numeric_string open_session hook_initial"
proof -
  have h: "activeRef (run no_numeric_string open_session hook_initial)"
    by (simp add: run_def step_def open_session_def connect_def onopen_def hook_initial_def)
  show ?thesis using h C7_connect_while_active [OF h, of "Connects 4 5 6"] by simp
qed

text \<open>
  C8. \<open>disconnect()\<close> raises no exception in any state and leaves \<open>isConnected\<close> and
  \<open>isConnecting\<close> false. A second call right after the first raises nothing and
  changes nothing, and so does a call before any \<open>connect()\<close>.
\<close>

theorem C8_disconnect_safe:
  "handle s2n Disconnect s = (disconnect s, None) \<and>
   \<not> isConnected (disconnect s) \<and> \<not> isConnecting (disconnect s) \<and>
   handle s2n Disconnect (disconnect s) = (disconnect s, None) \<and>
   handle s2n Disconnect hook_initial = (hook_initial, None)"
proof -
  have "disconnect hook_initial = hook_initial"
    by (rule disconnect_settled) (simp_all add: hook_initial_def)
  then show ?thesis by (simp add: disconnect_flags disconnect_twice)
qed

theorem C8_witness:
  "isConnected (run no_numeric_string playing_session hook_initial) \<and>
   \<not> isConnected (disconnect (run no_numeric_string playing_session hook_initial)) \<and>
   \<not> isConnecting (disconnect (run no_numeric_string playing_session hook_initial)) \<and>
   snd (handle no_numeric_string Disconnect
     (disconnect (run no_numeric_string playing_session hook_initial))) = None"
proof -
  have "isConnected (run no_numeric_string playing_session hook_initial)"
    by (simp add: playing_session_def eval_defs)
  then show ?thesis
    using C8_disconnect_safe [of no_numeric_string "run no_numeric_string playing_session hook_initial"]
    by simp
qed

end
